theory Spec2Isabelle
  imports Complex_Main
begin

section \<open>Python values, exceptions and the runtime the server is linked against\<close>

text \<open>
  The server (\<^verbatim>\<open>src/app.py\<close>) is a single Flask handler, \<^verbatim>\<open>run_tool\<close>, over two helpers,
  \<^verbatim>\<open>load_workbook_from_b64\<close> and \<^verbatim>\<open>parse_range_string\<close>. Everything else it calls is library
  code (base64, openpyxl, csv, the float type of the interpreter). The handler is embedded
  line by line; the library is a record of functions, \<open>runtime\<close>, that every definition takes
  as its first argument.

  A parsed JSON document, as \<^verbatim>\<open>request.json\<close> delivers it and \<^verbatim>\<open>jsonify\<close> takes it. A
  dict is the list of its items, each key once. The float type is the parameter \<open>'f\<close>: its
  arithmetic comes from the runtime.
\<close>

datatype 'f json =
    JNull
  | JBool bool
  | JInt int
  | JFloat 'f
  | JStr string
  | JArr "'f json list"
  | JObj "(string \<times> 'f json) list"

text \<open>
  The value of a cell as openpyxl hands it out: \<^verbatim>\<open>None\<close>, a bool, an int, a float, a str, or
  another object (a datetime, a time, a formula object), kept opaque as a number.
\<close>

datatype 'f cell_value =
    VNone
  | VBool bool
  | VInt int
  | VFloat 'f
  | VStr string
  | VObj nat

text \<open>
  An exception is its class and the text \<^verbatim>\<open>str(e)\<close>. Only the classes the handler
  distinguishes are kept apart; \<open>LibraryError\<close> is any other subclass of \<^verbatim>\<open>Exception\<close>.
\<close>

datatype exc_class =
  KeyError | TypeError | ValueError | OSError | AttributeError | OverflowError | LibraryError

datatype pyexc = Exc exc_class string

fun exc_class_of :: "pyexc \<Rightarrow> exc_class" where
  "exc_class_of (Exc c m) = c"

fun exc_str :: "pyexc \<Rightarrow> string" where
  "exc_str (Exc c m) = m"

text \<open>
  A worksheet is its title and its grid of cells, indexed by (row, column); a cell that was
  never written reads \<^verbatim>\<open>None\<close>. A workbook is the ordered list of its sheets and the index of
  the active one.
\<close>

type_synonym coord = "nat \<times> nat"

record 'f worksheet =
  title :: string
  cells :: "coord \<Rightarrow> 'f cell_value"

record 'f workbook =
  worksheets :: "'f worksheet list"
  active_sheet_index :: nat

text \<open>
  What \<^verbatim>\<open>sheet[key]\<close> returns: one cell for an address such as \<^verbatim>\<open>B2\<close>, a tuple of cells for
  one whole row or column, a tuple of tuples for a rectangle. A cell is named by its
  coordinate.
\<close>

datatype 'a lookup = OneCell 'a | CellTuple "'a list" | CellGrid "'a list list"

text \<open>
  The library, one field for each call the server makes. A call that can raise returns
  \<open>pyexc + _\<close>; a float conversion that can raise returns an option. The type \<open>'b\<close> is
  \<^verbatim>\<open>bytes\<close>.
  \<^item> \<open>b64decode\<close>, \<open>b64encode\<close>: \<^verbatim>\<open>base64.b64decode(s)\<close> and
    \<^verbatim>\<open>base64.b64encode(b).decode('utf-8')\<close>; \<open>utf8_encode\<close>: \<^verbatim>\<open>s.encode('utf-8')\<close>.
  \<^item> \<open>load_workbook\<close>: \<^verbatim>\<open>openpyxl.load_workbook(filename=io.BytesIO(b))\<close>;
    \<open>save_workbook\<close>: \<^verbatim>\<open>workbook.save(stream)\<close> and the bytes read back from the stream.
  \<^item> \<open>ws_getitem\<close>: \<^verbatim>\<open>sheet[key]\<close>, the cells an address names on a sheet, or the exception
    for an address the library cannot read.
  \<^item> \<open>bind_value\<close>: what the setter of \<^verbatim>\<open>cell.value\<close> stores for a value, or its exception.
  \<^item> \<open>iter_rows\<close>: \<^verbatim>\<open>sheet.iter_rows(values_only=True)\<close>, the rows of values of a sheet.
  \<^item> \<open>writerow\<close>: the text \<^verbatim>\<open>csv.writer(stream).writerow(row)\<close> appends to the stream.
  \<^item> \<open>float_of_str\<close>: \<^verbatim>\<open>float(s)\<close> on a str, \<open>None\<close> for \<^verbatim>\<open>ValueError\<close>; \<open>float_of_int\<close>:
    the conversion of an int, \<open>None\<close> for \<^verbatim>\<open>OverflowError\<close>; \<open>float_add\<close>, \<open>float_div\<close>: \<^verbatim>\<open>+\<close> and
    \<^verbatim>\<open>/\<close> on floats; \<open>int_truediv\<close>: \<^verbatim>\<open>/\<close> on two ints, \<open>None\<close> for \<^verbatim>\<open>OverflowError\<close>.
  \<^item> \<open>py_str\<close>, \<open>py_repr\<close>: \<^verbatim>\<open>str(v)\<close> and \<^verbatim>\<open>repr(s)\<close>; \<open>json_default\<close>: the text the JSON
    serialiser writes for an opaque object, or its exception.
  \<^item> \<open>int_max_str_digits\<close>: \<^verbatim>\<open>sys.get_int_max_str_digits()\<close>, the longest int the interpreter
    prints (4300 digits since CPython 3.11; 0 for no limit). A parsed body and a decoded
    file hold no longer int, since reading an int has the same limit; a sum can.
\<close>

record ('f, 'b) runtime =
  b64decode :: "string \<Rightarrow> pyexc + 'b"
  b64encode :: "'b \<Rightarrow> string"
  utf8_encode :: "string \<Rightarrow> 'b"
  load_workbook :: "'b \<Rightarrow> pyexc + 'f workbook"
  save_workbook :: "'f workbook \<Rightarrow> pyexc + 'b"
  ws_getitem :: "'f worksheet \<Rightarrow> string \<Rightarrow> pyexc + coord lookup"
  bind_value :: "'f cell_value \<Rightarrow> pyexc + 'f cell_value"
  iter_rows :: "'f worksheet \<Rightarrow> 'f cell_value list list"
  writerow :: "'f cell_value list \<Rightarrow> string"
  float_of_str :: "string \<Rightarrow> 'f option"
  float_of_int :: "int \<Rightarrow> 'f option"
  float_add :: "'f \<Rightarrow> 'f \<Rightarrow> 'f"
  float_div :: "'f \<Rightarrow> 'f \<Rightarrow> 'f"
  int_truediv :: "int \<Rightarrow> int \<Rightarrow> 'f option"
  py_str :: "'f json \<Rightarrow> string"
  py_repr :: "string \<Rightarrow> string"
  json_default :: "nat \<Rightarrow> pyexc + string"
  int_max_str_digits :: nat

text \<open>Sequencing of computations that may raise.\<close>

definition bindE :: "pyexc + 'a \<Rightarrow> ('a \<Rightarrow> pyexc + 'c) \<Rightarrow> pyexc + 'c" where
  "bindE m f = (case m of Inl e \<Rightarrow> Inl e | Inr x \<Rightarrow> f x)"

text \<open>The name of a value's type and a text in single quotes, as messages print them.\<close>

fun type_name :: "'f json \<Rightarrow> string" where
  "type_name JNull = ''NoneType''"
| "type_name (JBool b) = ''bool''"
| "type_name (JInt n) = ''int''"
| "type_name (JFloat x) = ''float''"
| "type_name (JStr s) = ''str''"
| "type_name (JArr xs) = ''list''"
| "type_name (JObj kvs) = ''dict''"

definition quoted :: "string \<Rightarrow> string" where
  "quoted s = [CHR 0x27] @ s @ [CHR 0x27]"

definition no_attribute :: "'f json \<Rightarrow> string \<Rightarrow> pyexc" where
  "no_attribute v a =
     Exc AttributeError (quoted (type_name v) @ '' object has no attribute '' @ quoted a)"

section \<open>The helpers of the server\<close>

text \<open>\<^verbatim>\<open>s.split(sep, 1)\<close>: one part when \<open>sep\<close> does not occur, else two, cut at the first.\<close>

fun split_once :: "char \<Rightarrow> string \<Rightarrow> string list" where
  "split_once sep [] = [[]]"
| "split_once sep (c # cs) =
     (if c = sep then [[], cs]
      else (case split_once sep cs of
              [] \<Rightarrow> [[c]]
            | a # rest \<Rightarrow> (c # a) # rest))"

text \<open>
  \<^verbatim>\<open>'!' not in range_str\<close> on each kind of JSON value: a substring test on a str, a
  membership test on a list, a key test on a dict, a \<^verbatim>\<open>TypeError\<close> on anything else.
\<close>

fun contains_bang :: "'f json \<Rightarrow> pyexc + bool" where
  "contains_bang (JStr s) = Inr (CHR ''!'' \<in> set s)"
| "contains_bang (JArr xs) = Inr (JStr ''!'' \<in> set xs)"
| "contains_bang (JObj kvs) = Inr (''!'' \<in> fst ` set kvs)"
| "contains_bang v =
     Inl (Exc TypeError (''argument of type '' @ quoted (type_name v) @ '' is not iterable''))"

definition invalid_range_format :: pyexc where
  "invalid_range_format =
     Exc ValueError (''Invalid range format. Expected '' @ quoted ''SheetName!A1:B10'' @ ''.'')"

definition parse_range_string :: "'f json \<Rightarrow> pyexc + string list" where
  "parse_range_string range_str =
     bindE (contains_bang range_str) (\<lambda>found.
       if \<not> found then Inl invalid_range_format
       else (case range_str of
               JStr s \<Rightarrow> Inr (split_once (CHR ''!'') s)
             | v \<Rightarrow> Inl (no_attribute v ''split'')))"

text \<open>Unpacking into two names: \<^verbatim>\<open>a, b = xs\<close>.\<close>

fun unpack2 :: "'a list \<Rightarrow> pyexc + ('a \<times> 'a)" where
  "unpack2 [a, b] = Inr (a, b)"
| "unpack2 [] = Inl (Exc ValueError ''not enough values to unpack (expected 2, got 0)'')"
| "unpack2 [a] = Inl (Exc ValueError ''not enough values to unpack (expected 2, got 1)'')"
| "unpack2 _ = Inl (Exc ValueError ''too many values to unpack (expected 2)'')"

text \<open>
  The two handlers of \<^verbatim>\<open>load_workbook_from_b64\<close>: a \<^verbatim>\<open>ValueError\<close> or \<^verbatim>\<open>TypeError\<close>
  (\<^verbatim>\<open>binascii.Error\<close> is a \<^verbatim>\<open>ValueError\<close>) is raised again as a \<^verbatim>\<open>ValueError\<close>, anything else as
  an \<^verbatim>\<open>IOError\<close>.
\<close>

definition reraise_load :: "pyexc \<Rightarrow> pyexc" where
  "reraise_load e =
     (if exc_class_of e = ValueError \<or> exc_class_of e = TypeError
      then Exc ValueError (''Invalid base64 file format: '' @ exc_str e)
      else Exc OSError (''Failed to parse Excel file: '' @ exc_str e))"

definition load_workbook_from_b64 :: "('f, 'b) runtime \<Rightarrow> 'f json \<Rightarrow> pyexc + 'f workbook" where
  "load_workbook_from_b64 L b64_string =
     (case (case b64_string of
              JStr s \<Rightarrow>
                bindE (unpack2 (split_once (CHR '','') s)) (\<lambda>(header, encoded).
                bindE (b64decode L encoded) (\<lambda>file_bytes.
                load_workbook L file_bytes))
            | v \<Rightarrow> Inl (no_attribute v ''split''))
      of Inl e \<Rightarrow> Inl (reraise_load e)
       | Inr wb \<Rightarrow> Inr wb)"

section \<open>Dictionaries, sheets and numbers as the handler uses them\<close>

text \<open>\<^verbatim>\<open>data.get(key, default)\<close>: only a dict has the method.\<close>

fun dict_get :: "'f json \<Rightarrow> string \<Rightarrow> 'f json \<Rightarrow> pyexc + 'f json" where
  "dict_get (JObj kvs) key dflt =
     Inr (case map_of kvs key of None \<Rightarrow> dflt | Some v \<Rightarrow> v)"
| "dict_get v key dflt = Inl (no_attribute v ''get'')"

text \<open>
  \<^verbatim>\<open>params[key]\<close> with a str key: a \<^verbatim>\<open>KeyError\<close> on a dict without the key, a \<^verbatim>\<open>TypeError\<close>
  on every value that is not a dict.
\<close>

fun py_getitem :: "('f, 'b) runtime \<Rightarrow> 'f json \<Rightarrow> string \<Rightarrow> pyexc + 'f json" where
  "py_getitem L (JObj kvs) key =
     (case map_of kvs key of
        None \<Rightarrow> Inl (Exc KeyError (py_repr L key))
      | Some v \<Rightarrow> Inr v)"
| "py_getitem L (JArr xs) key =
     Inl (Exc TypeError ''list indices must be integers or slices, not str'')"
| "py_getitem L (JStr s) key =
     Inl (Exc TypeError (''string indices must be integers, not '' @ quoted ''str''))"
| "py_getitem L v key =
     Inl (Exc TypeError (quoted (type_name v) @ '' object is not subscriptable''))"

text \<open>
  \<^verbatim>\<open>workbook[sheet_name]\<close>: the first sheet with that title, a \<^verbatim>\<open>KeyError\<close> when there is
  none. The sheet is an object inside the workbook, so the result is its position.
\<close>

fun sheet_index :: "string \<Rightarrow> 'f worksheet list \<Rightarrow> nat option" where
  "sheet_index key [] = None"
| "sheet_index key (s # ss) =
     (if title s = key then Some 0
      else (case sheet_index key ss of None \<Rightarrow> None | Some i \<Rightarrow> Some (Suc i)))"

definition wb_getitem :: "('f, 'b) runtime \<Rightarrow> 'f workbook \<Rightarrow> string \<Rightarrow> pyexc + nat" where
  "wb_getitem L wb key =
     (case sheet_index key (worksheets wb) of
        None \<Rightarrow> Inl (Exc KeyError (py_repr L (''Worksheet '' @ key @ '' does not exist.'')))
      | Some i \<Rightarrow> Inr i)"

text \<open>\<^verbatim>\<open>workbook.active\<close>: the sheet at the active index, \<^verbatim>\<open>None\<close> when there is none.\<close>

definition wb_active :: "'f workbook \<Rightarrow> 'f worksheet option" where
  "wb_active wb =
     (if active_sheet_index wb < length (worksheets wb)
      then Some (worksheets wb ! active_sheet_index wb) else None)"

text \<open>
  \<^verbatim>\<open>for row in sheet[cell_range]: for cell in row:\<close> needs a tuple of tuples. A single cell
  is not iterable, and neither is the first element of a flat tuple of cells.
\<close>

fun iter_lookup :: "'a lookup \<Rightarrow> pyexc + 'a list list" where
  "iter_lookup (CellGrid rows) = Inr rows"
| "iter_lookup (CellTuple []) = Inr []"
| "iter_lookup (CellTuple (c # cs)) =
     Inl (Exc TypeError (quoted ''Cell'' @ '' object is not iterable''))"
| "iter_lookup (OneCell c) =
     Inl (Exc TypeError (quoted ''Cell'' @ '' object is not iterable''))"

text \<open>\<^verbatim>\<open>sheet[key].value\<close> needs a single cell; a tuple has no such attribute.\<close>

definition tuple_no_value :: pyexc where
  "tuple_no_value =
     Exc AttributeError (quoted ''tuple'' @ '' object has no attribute '' @ quoted ''value'')"

fun one_cell :: "'a lookup \<Rightarrow> pyexc + 'a" where
  "one_cell (OneCell c) = Inr c"
| "one_cell _ = Inl tuple_no_value"

text \<open>
  \<^verbatim>\<open>sheet[key] = value\<close> is \<^verbatim>\<open>sheet[key].value = value\<close>: the library's setter may reject or
  normalise the value (\<open>bind_value\<close>), then the cell holds it.
\<close>

definition ws_setitem ::
  "('f, 'b) runtime \<Rightarrow> 'f worksheet \<Rightarrow> string \<Rightarrow> 'f cell_value \<Rightarrow> pyexc + 'f worksheet" where
  "ws_setitem L sheet key v =
     bindE (ws_getitem L sheet key) (\<lambda>found.
     bindE (one_cell found) (\<lambda>rc.
     bindE (bind_value L v) (\<lambda>stored.
     Inr (sheet\<lparr>cells := (cells sheet)(rc := stored)\<rparr>))))"

text \<open>\<^verbatim>\<open>isinstance(v, (int, float))\<close>: bool is a subclass of int.\<close>

fun is_number :: "'f cell_value \<Rightarrow> bool" where
  "is_number (VBool b) = True"
| "is_number (VInt n) = True"
| "is_number (VFloat x) = True"
| "is_number _ = False"

text \<open>
  The accumulator \<^verbatim>\<open>total\<close> (here \<open>tot\<close>) is an int until a float is added. Adding an int
  and a float converts the int, which raises \<^verbatim>\<open>OverflowError\<close> beyond the range of a float.
\<close>

datatype 'f num = NInt int | NFloat 'f

definition int_too_large :: pyexc where
  "int_too_large = Exc OverflowError ''int too large to convert to float''"

definition to_float :: "('f, 'b) runtime \<Rightarrow> int \<Rightarrow> pyexc + 'f" where
  "to_float L n = (case float_of_int L n of None \<Rightarrow> Inl int_too_large | Some x \<Rightarrow> Inr x)"

fun py_add :: "('f, 'b) runtime \<Rightarrow> 'f num \<Rightarrow> 'f cell_value \<Rightarrow> pyexc + 'f num" where
  "py_add L (NInt a) (VFloat y) = bindE (to_float L a) (\<lambda>x. Inr (NFloat (float_add L x y)))"
| "py_add L (NFloat x) (VFloat y) = Inr (NFloat (float_add L x y))"
| "py_add L (NInt a) (VInt b) = Inr (NInt (a + b))"
| "py_add L (NInt a) (VBool b) = Inr (NInt (a + (if b then 1 else 0)))"
| "py_add L (NFloat x) (VInt b) = bindE (to_float L b) (\<lambda>y. Inr (NFloat (float_add L x y)))"
| "py_add L (NFloat x) (VBool b) =
     bindE (to_float L (if b then 1 else 0)) (\<lambda>y. Inr (NFloat (float_add L x y)))"
| "py_add L t v = Inl (Exc TypeError ''unsupported operand type(s) for +='')"

text \<open>\<^verbatim>\<open>total / count\<close>: true division, always a float.\<close>

definition py_truediv :: "('f, 'b) runtime \<Rightarrow> 'f num \<Rightarrow> nat \<Rightarrow> pyexc + 'f" where
  "py_truediv L tot count =
     (case tot of
        NInt a \<Rightarrow>
          (case int_truediv L a (int count) of
             None \<Rightarrow> Inl (Exc OverflowError ''integer division result too large for a float'')
           | Some q \<Rightarrow> Inr q)
      | NFloat x \<Rightarrow> bindE (to_float L (int count)) (\<lambda>c. Inr (float_div L x c)))"

text \<open>
  \<^verbatim>\<open>jsonify\<close> prints an int in decimal, which raises \<^verbatim>\<open>ValueError\<close> when the int has more digits
  than the limit; a float is always printed.
\<close>

definition int_too_long :: "('f, 'b) runtime \<Rightarrow> pyexc" where
  "int_too_long L =
     Exc ValueError (''Exceeds the limit ('' @ py_str L (JInt (int (int_max_str_digits L)))
       @ '' digits) for integer string conversion; ''
       @ ''use sys.set_int_max_str_digits() to increase the limit'')"

definition jsonify_int :: "('f, 'b) runtime \<Rightarrow> int \<Rightarrow> pyexc + 'f json" where
  "jsonify_int L n =
     (if 0 < int_max_str_digits L \<and> 10 ^ int_max_str_digits L \<le> \<bar>n\<bar>
      then Inl (int_too_long L) else Inr (JInt n))"

fun json_of_num :: "('f, 'b) runtime \<Rightarrow> 'f num \<Rightarrow> pyexc + 'f json" where
  "json_of_num L (NInt n) = jsonify_int L n"
| "json_of_num L (NFloat x) = Inr (JFloat x)"

text \<open>
  \<^verbatim>\<open>jsonify\<close> on a cell value: the JSON value of the same kind; an opaque object goes
  through the serialiser's default hook, which raises \<^verbatim>\<open>TypeError\<close> when it knows no form.
\<close>

fun json_of_cell :: "('f, 'b) runtime \<Rightarrow> 'f cell_value \<Rightarrow> pyexc + 'f json" where
  "json_of_cell L VNone = Inr JNull"
| "json_of_cell L (VBool b) = Inr (JBool b)"
| "json_of_cell L (VInt n) = jsonify_int L n"
| "json_of_cell L (VFloat x) = Inr (JFloat x)"
| "json_of_cell L (VStr s) = Inr (JStr s)"
| "json_of_cell L (VObj n) = bindE (json_default L n) (\<lambda>s. Inr (JStr s))"

section \<open>The tools\<close>

text \<open>
  The loops of \<^verbatim>\<open>sum_range\<close> and \<^verbatim>\<open>avg_range\<close> over the rows of a range and the cell values
  of a row. The accumulators are the arguments.
\<close>

fun sum_row :: "('f, 'b) runtime \<Rightarrow> 'f num \<Rightarrow> 'f cell_value list \<Rightarrow> pyexc + 'f num" where
  "sum_row L tot [] = Inr tot"
| "sum_row L tot (v # vs) =
     (if is_number v then bindE (py_add L tot v) (\<lambda>t. sum_row L t vs)
      else sum_row L tot vs)"

fun sum_rows :: "('f, 'b) runtime \<Rightarrow> 'f num \<Rightarrow> 'f cell_value list list \<Rightarrow> pyexc + 'f num" where
  "sum_rows L tot [] = Inr tot"
| "sum_rows L tot (row # rows) = bindE (sum_row L tot row) (\<lambda>t. sum_rows L t rows)"

fun avg_row ::
  "('f, 'b) runtime \<Rightarrow> 'f num \<Rightarrow> nat \<Rightarrow> 'f cell_value list \<Rightarrow> pyexc + ('f num \<times> nat)" where
  "avg_row L tot count [] = Inr (tot, count)"
| "avg_row L tot count (v # vs) =
     (if is_number v then bindE (py_add L tot v) (\<lambda>t. avg_row L t (count + 1) vs)
      else avg_row L tot count vs)"

fun avg_rows ::
  "('f, 'b) runtime \<Rightarrow> 'f num \<Rightarrow> nat \<Rightarrow> 'f cell_value list list \<Rightarrow> pyexc + ('f num \<times> nat)" where
  "avg_rows L tot count [] = Inr (tot, count)"
| "avg_rows L tot count (row # rows) =
     bindE (avg_row L tot count row) (\<lambda>(t, c). avg_rows L t c rows)"

text \<open>
  \<^verbatim>\<open>float(new_value)\<close> under \<^verbatim>\<open>except ValueError: pass\<close>: a str that does not parse stays
  a str; an int, a bool or a float is converted; anything else is a \<^verbatim>\<open>TypeError\<close>, which
  the inner handler does not catch.
\<close>

fun coerce_value :: "('f, 'b) runtime \<Rightarrow> 'f json \<Rightarrow> pyexc + 'f cell_value" where
  "coerce_value L (JStr s) =
     (case float_of_str L s of None \<Rightarrow> Inr (VStr s) | Some x \<Rightarrow> Inr (VFloat x))"
| "coerce_value L (JInt n) = bindE (to_float L n) (\<lambda>x. Inr (VFloat x))"
| "coerce_value L (JBool b) = bindE (to_float L (if b then 1 else 0)) (\<lambda>x. Inr (VFloat x))"
| "coerce_value L (JFloat x) = Inr (VFloat x)"
| "coerce_value L v =
     Inl (Exc TypeError
       (''float() argument must be a string or a real number, not '' @ quoted (type_name v)))"

text \<open>The CSV writer appends one record to the stream for every row.\<close>

fun write_rows :: "('f, 'b) runtime \<Rightarrow> string \<Rightarrow> 'f cell_value list list \<Rightarrow> string" where
  "write_rows L stream [] = stream"
| "write_rows L stream (row # rows) = write_rows L (stream @ writerow L row) rows"

text \<open>
  A run of the handler is the list of the files it tried to decode, in order, and what it
  returned or raised. A response is a status and a JSON body.
\<close>

datatype event = DecodeFile

type_synonym 'f response = "nat \<times> 'f json"

type_synonym 'a run = "event list \<times> (pyexc + 'a)"

definition bindR :: "'a run \<Rightarrow> ('a \<Rightarrow> 'c run) \<Rightarrow> 'c run" where
  "bindR m f =
     (case m of
        (t, Inl e) \<Rightarrow> (t, Inl e)
      | (t, Inr x) \<Rightarrow> (case f x of (t', r) \<Rightarrow> (t @ t', r)))"

definition quiet :: "pyexc + 'a \<Rightarrow> 'a run" where
  "quiet r = ([], r)"

definition decode_file :: "('f, 'b) runtime \<Rightarrow> 'f json \<Rightarrow> 'f workbook run" where
  "decode_file L file = ([DecodeFile], load_workbook_from_b64 L file)"

definition ok_value :: "'f json \<Rightarrow> 'f response" where
  "ok_value v = (200, JObj [(''result'', JObj [(''value'', v)])])"

definition ok_file :: "string \<Rightarrow> 'f response" where
  "ok_file data_url = (200, JObj [(''result'', JObj [(''file'', JStr data_url)])])"

definition sum_range :: "('f, 'b) runtime \<Rightarrow> 'f json \<Rightarrow> 'f response run" where
  "sum_range L params =
     bindR (quiet (py_getitem L params ''file'')) (\<lambda>file.
     bindR (decode_file L file) (\<lambda>workbook.
     quiet (
       bindE (py_getitem L params ''range'') (\<lambda>range_str.
       bindE (parse_range_string range_str) (\<lambda>parts.
       bindE (unpack2 parts) (\<lambda>(sheet_name, cell_range).
       bindE (wb_getitem L workbook sheet_name) (\<lambda>i.
       let sheet = worksheets workbook ! i in
       bindE (ws_getitem L sheet cell_range) (\<lambda>found.
       bindE (iter_lookup found) (\<lambda>rows.
       bindE (sum_rows L (NInt 0) (map (map (cells sheet)) rows)) (\<lambda>tot.
       bindE (json_of_num L tot) (\<lambda>v.
       Inr (ok_value v))))))))))))"

definition avg_range :: "('f, 'b) runtime \<Rightarrow> 'f json \<Rightarrow> 'f response run" where
  "avg_range L params =
     bindR (quiet (py_getitem L params ''file'')) (\<lambda>file.
     bindR (decode_file L file) (\<lambda>workbook.
     quiet (
       bindE (py_getitem L params ''range'') (\<lambda>range_str.
       bindE (parse_range_string range_str) (\<lambda>parts.
       bindE (unpack2 parts) (\<lambda>(sheet_name, cell_range).
       bindE (wb_getitem L workbook sheet_name) (\<lambda>i.
       let sheet = worksheets workbook ! i in
       bindE (ws_getitem L sheet cell_range) (\<lambda>found.
       bindE (iter_lookup found) (\<lambda>rows.
       bindE (avg_rows L (NInt 0) 0 (map (map (cells sheet)) rows)) (\<lambda>(tot, count).
       if count > 0
       then bindE (py_truediv L tot count) (\<lambda>average. Inr (ok_value (JFloat average)))
       else Inr (ok_value (JInt 0))))))))))))"

definition get_cell :: "('f, 'b) runtime \<Rightarrow> 'f json \<Rightarrow> 'f response run" where
  "get_cell L params =
     bindR (quiet (py_getitem L params ''file'')) (\<lambda>file.
     bindR (decode_file L file) (\<lambda>workbook.
     quiet (
       bindE (py_getitem L params ''cell'') (\<lambda>cell_str.
       bindE (parse_range_string cell_str) (\<lambda>parts.
       bindE (unpack2 parts) (\<lambda>(sheet_name, cell_address).
       bindE (wb_getitem L workbook sheet_name) (\<lambda>i.
       let sheet = worksheets workbook ! i in
       bindE (ws_getitem L sheet cell_address) (\<lambda>found.
       bindE (one_cell found) (\<lambda>rc.
       bindE (json_of_cell L (cells sheet rc)) (\<lambda>v.
       Inr (ok_value v)))))))))))"

definition xlsx_prefix :: string where
  "xlsx_prefix =
     ''data:application/vnd.openxmlformats-officedocument.spreadsheetml.sheet;base64,''"

definition set_cell :: "('f, 'b) runtime \<Rightarrow> 'f json \<Rightarrow> 'f response run" where
  "set_cell L params =
     bindR (quiet (py_getitem L params ''file'')) (\<lambda>file.
     bindR (decode_file L file) (\<lambda>workbook.
     quiet (
       bindE (py_getitem L params ''cell'') (\<lambda>cell_str.
       bindE (parse_range_string cell_str) (\<lambda>parts.
       bindE (unpack2 parts) (\<lambda>(sheet_name, cell_address).
       bindE (py_getitem L params ''value'') (\<lambda>new_value.
       bindE (wb_getitem L workbook sheet_name) (\<lambda>i.
       bindE (coerce_value L new_value) (\<lambda>v.
       bindE (ws_setitem L (worksheets workbook ! i) cell_address v) (\<lambda>sheet.
       let workbook2 = workbook\<lparr>worksheets := (worksheets workbook)[i := sheet]\<rparr> in
       bindE (save_workbook L workbook2) (\<lambda>saved.
       Inr (ok_file (xlsx_prefix @ b64encode L saved)))))))))))))"

definition to_csv :: "('f, 'b) runtime \<Rightarrow> 'f json \<Rightarrow> 'f response run" where
  "to_csv L params =
     bindR (quiet (py_getitem L params ''file'')) (\<lambda>file.
     bindR (decode_file L file) (\<lambda>workbook.
     quiet (
       case wb_active workbook of
         None \<Rightarrow>
           Inl (Exc AttributeError
             (quoted ''NoneType'' @ '' object has no attribute '' @ quoted ''iter_rows''))
       | Some sheet \<Rightarrow>
           let csv_content = write_rows L [] (iter_rows L sheet) in
           Inr (ok_file (''data:text/csv;base64,'' @ b64encode L (utf8_encode L csv_content))))))"

section \<open>The handler\<close>

text \<open>\<^verbatim>\<open>f"...{tool_id}..."\<close>: a str is printed as it is, \<^verbatim>\<open>None\<close> as its name.\<close>

fun py_format :: "('f, 'b) runtime \<Rightarrow> 'f json \<Rightarrow> string" where
  "py_format L (JStr s) = s"
| "py_format L JNull = ''None''"
| "py_format L v = py_str L v"

definition not_found :: "('f, 'b) runtime \<Rightarrow> 'f json \<Rightarrow> 'f response" where
  "not_found L tool_id =
     (404, JObj [(''error'',
        JStr (''Tool with id '' @ quoted (py_format L tool_id) @ '' not found.''))])"

text \<open>The two \<^verbatim>\<open>except\<close> clauses of \<^verbatim>\<open>run_tool\<close>.\<close>

definition error_response :: "pyexc \<Rightarrow> 'f response" where
  "error_response e =
     (if exc_class_of e = KeyError \<or> exc_class_of e = TypeError
      then (400, JObj [(''error'', JStr (''Missing or invalid parameter: '' @ exc_str e))])
      else (500, JObj [(''error'', JStr (exc_str e))]))"

text \<open>
  The body of the \<^verbatim>\<open>try\<close>. The argument is what \<^verbatim>\<open>request.json\<close> gives: the parsed body, or
  the exception Flask raises when the body is not JSON.
\<close>

definition dispatch :: "('f, 'b) runtime \<Rightarrow> pyexc + 'f json \<Rightarrow> 'f response run" where
  "dispatch L request_json =
     bindR (quiet request_json) (\<lambda>data.
     bindR (quiet (dict_get data ''tool_id'' JNull)) (\<lambda>tool_id.
     bindR (quiet (dict_get data ''parameters'' (JObj []))) (\<lambda>params.
       if tool_id = JStr ''sum_range'' then sum_range L params
       else if tool_id = JStr ''avg_range'' then avg_range L params
       else if tool_id = JStr ''get_cell'' then get_cell L params
       else if tool_id = JStr ''set_cell'' then set_cell L params
       else if tool_id = JStr ''to_csv'' then to_csv L params
       else quiet (Inr (not_found L tool_id)))))"

definition run_tool :: "('f, 'b) runtime \<Rightarrow> pyexc + 'f json \<Rightarrow> event list \<times> 'f response" where
  "run_tool L request_json =
     (case dispatch L request_json of
        (t, Inr response) \<Rightarrow> (t, response)
      | (t, Inl e) \<Rightarrow> (t, error_response e))"

section \<open>What the specification says, as functions\<close>

text \<open>
  The parsed body \<open>data\<close> is a request for \<open>tool\<close> with the parameters \<open>params\<close>: what the
  first two lines of the handler read from it.
\<close>

definition calls :: "'f json \<Rightarrow> string \<Rightarrow> 'f json \<Rightarrow> bool" where
  "calls data tool params \<longleftrightarrow>
     dict_get data ''tool_id'' JNull = Inr (JStr tool) \<and>
     dict_get data ''parameters'' (JObj []) = Inr params"

text \<open>The tools that take a reference, and the parameter that holds it.\<close>

definition reference_tools :: "string list" where
  "reference_tools = [''sum_range'', ''avg_range'', ''get_cell'', ''set_cell'']"

definition file_tools :: "string list" where
  "file_tools = reference_tools @ [''to_csv'']"

definition reference_param :: "string \<Rightarrow> string" where
  "reference_param tool =
     (if tool = ''sum_range'' \<or> tool = ''avg_range'' then ''range'' else ''cell'')"

text \<open>The values of the cells of a resolved range, in the order the loops visit them.\<close>

definition range_values :: "'f workbook \<Rightarrow> nat \<Rightarrow> coord list list \<Rightarrow> 'f cell_value list" where
  "range_values wb i rows = concat (map (map (cells (worksheets wb ! i))) rows)"

text \<open>
  The numbers of a range, stated apart from the code: the number a cell holds, if it holds
  one (a boolean is the integer 1 or 0; text, an empty cell and any other object hold
  none), and the numbers of a list of cells in their order.
\<close>

fun number_of :: "'f cell_value \<Rightarrow> 'f num option" where
  "number_of (VInt n) = Some (NInt n)"
| "number_of (VFloat x) = Some (NFloat x)"
| "number_of (VBool b) = Some (NInt (if b then 1 else 0))"
| "number_of v = None"

definition numbers_of :: "'f cell_value list \<Rightarrow> 'f num list" where
  "numbers_of vs = List.map_filter number_of vs"
















text \<open>
  The two shapes of a response: a success carries \<^verbatim>\<open>{"result": ...}\<close> and the status 200,
  a failure \<^verbatim>\<open>{"error": <string>}\<close> and one of the statuses 400, 404 and 500.
\<close>

fun is_result :: "'f response \<Rightarrow> bool" where
  "is_result (st, JObj [(k, v)]) = (st = 200 \<and> k = ''result'')"
| "is_result r = False"

fun is_error :: "'f response \<Rightarrow> bool" where
  "is_error (st, JObj [(k, JStr m)]) = ((st = 400 \<or> st = 404 \<or> st = 500) \<and> k = ''error'')"
| "is_error r = False"

definition yields_result :: "pyexc + 'f response \<Rightarrow> bool" where
  "yields_result r = (case r of Inl e \<Rightarrow> True | Inr response \<Rightarrow> is_result response)"

text \<open>The response to a reference without the separator.\<close>

definition invalid_reference :: "'f response" where
  "invalid_reference =
     (500, JObj [(''error'',
        JStr (''Invalid range format. Expected '' @ quoted ''SheetName!A1:B10'' @ ''.''))])"

section \<open>A small runtime for the examples\<close>

text \<open>
  The example of the specification: a workbook whose first sheet, \<^verbatim>\<open>Sheet1\<close>, holds
  \<^verbatim>\<open>A1 = 2\<close>, \<^verbatim>\<open>A2 = 4\<close> and \<^verbatim>\<open>A3 = "x"\<close>; a second sheet, \<^verbatim>\<open>Flags\<close>, holds two booleans
  and a number. Floats are rationals, a file is the name of a workbook, and base64 is the
  identity.

  Saving and loading follow openpyxl on the cell \<^verbatim>\<open>B2\<close> of the first sheet. The writer
  prints a float with \<^verbatim>\<open>%.16g\<close> and the reader takes a number without a fraction or exponent
  for an int, so the float 5.0 is saved as \<^verbatim>\<open>5\<close> and loaded as the int 5, while 2.5 is loaded
  as the float 2.5; the writer gives a cell holding the empty string no value, so it is
  loaded empty. A reference to one cell gives the cell, a reference to one column the flat
  tuple of its cells, a reference with two corners the tuple of its rows.
\<close>

definition demo_sheet :: "rat worksheet" where
  "demo_sheet =
     \<lparr>title = ''Sheet1'',
      cells = (\<lambda>rc. VNone)((1, 1) := VInt 2, (2, 1) := VInt 4, (3, 1) := VStr ''x'')\<rparr>"

definition demo_flags :: "rat worksheet" where
  "demo_flags =
     \<lparr>title = ''Flags'',
      cells = (\<lambda>rc. VNone)((1, 1) := VBool True, (2, 1) := VBool False, (3, 1) := VInt 5)\<rparr>"

definition demo_book :: "rat workbook" where
  "demo_book = \<lparr>worksheets = [demo_sheet, demo_flags], active_sheet_index = 0\<rparr>"

definition demo_book_with :: "rat cell_value \<Rightarrow> rat workbook" where
  "demo_book_with v =
     demo_book\<lparr>worksheets :=
       [demo_sheet\<lparr>cells := (cells demo_sheet)((2, 2) := v)\<rparr>, demo_flags]\<rparr>"

definition demo_load :: "string \<Rightarrow> pyexc + rat workbook" where
  "demo_load file_bytes =
     (if file_bytes = ''book'' then Inr demo_book
      else if file_bytes = ''book-5'' then Inr (demo_book_with (VInt 5))
      else if file_bytes = ''book-2.5'' then Inr (demo_book_with (VFloat (5 / 2)))
      else if file_bytes = ''book-hello'' then Inr (demo_book_with (VStr ''hello''))
      else Inl (Exc LibraryError ''File is not a zip file''))"

definition demo_save :: "rat workbook \<Rightarrow> pyexc + string" where
  "demo_save wb =
     (case map (\<lambda>s. cells s (2, 2)) (worksheets wb) of
        VFloat x # rest \<Rightarrow> Inr (if x = 5 then ''book-5'' else ''book-2.5'')
      | VInt n # rest \<Rightarrow> Inr ''book-5''
      | VStr s # rest \<Rightarrow> Inr (if s = [] then ''book'' else ''book-hello'')
      | _ \<Rightarrow> Inr ''book'')"

definition demo_getitem :: "rat worksheet \<Rightarrow> string \<Rightarrow> pyexc + coord lookup" where
  "demo_getitem sheet key =
     (if key = ''A1:A3'' then Inr (CellGrid [[(1, 1)], [(2, 1)], [(3, 1)]])
      else if key = ''A:A'' then Inr (CellTuple [(1, 1), (2, 1), (3, 1)])
      else if key = ''A1'' then Inr (OneCell (1, 1))
      else if key = ''B2'' then Inr (OneCell (2, 2))
      else Inl (Exc ValueError (key @ '' is not a valid coordinate or range'')))"

fun demo_text :: "rat cell_value \<Rightarrow> string" where
  "demo_text (VStr s) = s"
| "demo_text (VInt n) = (if n = 2 then ''2'' else if n = 4 then ''4'' else ''0'')"
| "demo_text v = []"

fun demo_join :: "string list \<Rightarrow> string" where
  "demo_join [] = []"
| "demo_join [x] = x"
| "demo_join (x # xs) = x @ '','' @ demo_join xs"

definition demo_writerow :: "rat cell_value list \<Rightarrow> string" where
  "demo_writerow row = demo_join (map demo_text row) @ [CHR 0x0D, CHR 0x0A]"

definition demo_float :: "string \<Rightarrow> rat option" where
  "demo_float s =
     (if s = ''5'' then Some 5 else if s = ''2.5'' then Some (5 / 2) else None)"

definition demo :: "(rat, string) runtime" where
  "demo =
     \<lparr>b64decode = Inr,
      b64encode = (\<lambda>b. b),
      utf8_encode = (\<lambda>s. s),
      load_workbook = demo_load,
      save_workbook = demo_save,
      ws_getitem = demo_getitem,
      bind_value = Inr,
      iter_rows = (\<lambda>sheet. map (map (cells sheet)) [[(1, 1)], [(2, 1)], [(3, 1)]]),
      writerow = demo_writerow,
      float_of_str = demo_float,
      float_of_int = (\<lambda>n. Some (of_int n)),
      float_add = (+),
      float_div = (/),
      int_truediv = (\<lambda>a b. Some (of_int a / of_int b)),
      py_str = (\<lambda>v. ''?''),
      py_repr = quoted,
      json_default = (\<lambda>n. Inl (Exc TypeError ''Object is not JSON serializable'')),
      int_max_str_digits = 4300\<rparr>"

text \<open>A request for a tool with the given parameters, as the parsed body.\<close>

definition request :: "string \<Rightarrow> (string \<times> 'f json) list \<Rightarrow> pyexc + 'f json" where
  "request tool_id params =
     Inr (JObj [(''tool_id'', JStr tool_id), (''parameters'', JObj params)])"

section \<open>Sequencing\<close>

lemma bindE_Inl [simp]: "bindE (Inl e) f = Inl e"
  by (simp add: bindE_def)

lemma bindE_Inr [simp]: "bindE (Inr x) f = f x"
  by (simp add: bindE_def)

lemma bindR_quiet_Inr [simp]: "bindR (quiet (Inr x)) f = f x"
  by (simp add: bindR_def quiet_def split: prod.splits)

lemma bindR_quiet_Inl [simp]: "bindR (quiet (Inl e)) f = ([], Inl e)"
  by (simp add: bindR_def quiet_def)

lemma bindR_decode_Inr:
  "load_workbook_from_b64 L b64_string = Inr wb \<Longrightarrow>
   bindR (decode_file L b64_string) (\<lambda>w. quiet (g w)) = ([DecodeFile], g wb)"
  by (simp add: bindR_def decode_file_def quiet_def)

lemma bindR_decode_Inl:
  "load_workbook_from_b64 L b64_string = Inl e \<Longrightarrow>
   bindR (decode_file L b64_string) f = ([DecodeFile], Inl e)"
  by (simp add: bindR_def decode_file_def)

section \<open>Splitting a reference\<close>

lemma split_once_absent: "sep \<notin> set s \<Longrightarrow> split_once sep s = [s]"
  by (induction s) auto

lemma split_once_first: "sep \<notin> set a \<Longrightarrow> split_once sep (a @ sep # b) = [a, b]"
  by (induction a) auto

lemma split_once_present:
  "sep \<in> set s \<Longrightarrow> \<exists>a b. split_once sep s = [a, b] \<and> s = a @ sep # b \<and> sep \<notin> set a"
proof (induction s)
  case Nil
  then show ?case by simp
next
  case (Cons c cs)
  show ?case
  proof (cases "c = sep")
    case True
    then have "split_once sep (c # cs) = [[], cs] \<and> c # cs = [] @ sep # cs \<and> sep \<notin> set []"
      by simp
    then show ?thesis by blast
  next
    case False
    with Cons.prems have "sep \<in> set cs" by simp
    then obtain a b where ab: "split_once sep cs = [a, b]" "cs = a @ sep # b" "sep \<notin> set a"
      using Cons.IH by blast
    with False have "split_once sep (c # cs) = [c # a, b] \<and> c # cs = (c # a) @ sep # b
        \<and> sep \<notin> set (c # a)"
      by auto
    then show ?thesis by blast
  qed
qed

lemma parse_range_string_ref:
  "CHR ''!'' \<notin> set sheet_name \<Longrightarrow>
   parse_range_string (JStr (sheet_name @ CHR ''!'' # address)) = Inr [sheet_name, address]"
  by (simp add: parse_range_string_def split_once_first)

lemma parse_range_string_no_bang:
  "CHR ''!'' \<notin> set ref \<Longrightarrow>
   parse_range_string (JStr ref) = Inl invalid_range_format"
  by (simp add: parse_range_string_def)

section \<open>The dispatch on the tool identifier\<close>

lemma dispatch_sum_range:
  "calls data ''sum_range'' params \<Longrightarrow> dispatch L (Inr data) = sum_range L params"
  by (simp add: calls_def dispatch_def)

lemma dispatch_avg_range:
  "calls data ''avg_range'' params \<Longrightarrow> dispatch L (Inr data) = avg_range L params"
  by (simp add: calls_def dispatch_def)

lemma dispatch_get_cell:
  "calls data ''get_cell'' params \<Longrightarrow> dispatch L (Inr data) = get_cell L params"
  by (simp add: calls_def dispatch_def)

lemma dispatch_set_cell:
  "calls data ''set_cell'' params \<Longrightarrow> dispatch L (Inr data) = set_cell L params"
  by (simp add: calls_def dispatch_def)

lemma dispatch_to_csv:
  "calls data ''to_csv'' params \<Longrightarrow> dispatch L (Inr data) = to_csv L params"
  by (simp add: calls_def dispatch_def)

lemma calls_request: "calls (JObj [(''tool_id'', JStr tool), (''parameters'', JObj kvs)]) tool (JObj kvs)"
  by (simp add: calls_def)

lemma run_tool_Inr:
  "dispatch L rq = (t, Inr response) \<Longrightarrow> run_tool L rq = (t, response)"
  by (simp add: run_tool_def)

lemma run_tool_Inl:
  "dispatch L rq = (t, Inl e) \<Longrightarrow> run_tool L rq = (t, error_response e)"
  by (simp add: run_tool_def)

section \<open>The loops\<close>






lemma sheet_index_Some:
  "sheet_index key ss = Some i \<Longrightarrow> i < length ss \<and> title (ss ! i) = key"
  by (induction ss arbitrary: i) (auto split: if_splits option.splits)

section \<open>The numbers of a range\<close>

lemma numbers_of_Nil [simp]: "numbers_of [] = []"
  by (simp add: numbers_of_def map_filter_simps)













section \<open>Printing an int\<close>




lemma is_error_int_too_long [simp]: "is_error (error_response (int_too_long L))"
  by (simp add: error_response_def int_too_long_def)

section \<open>The range tools on a resolved reference\<close>









lemma range_values_Nil [simp]: "range_values wb i [] = []"
  by (simp add: range_values_def)



section \<open>The claims about the range tools\<close>







section \<open>Failures\<close>

lemma is_error_error_response [simp]: "is_error (error_response e)"
  by (simp add: error_response_def)

lemma is_error_invalid_reference [simp]: "is_error invalid_reference"
  by (simp add: invalid_reference_def)

lemma error_response_invalid_reference:
  "error_response invalid_range_format = invalid_reference"
  by (simp add: error_response_def invalid_reference_def invalid_range_format_def)

lemma py_getitem_error_400:
  "py_getitem L params key = Inl e \<Longrightarrow> fst (error_response e) = 400"
  by (cases params) (auto simp: error_response_def split: option.splits)

lemma load_error_500:
  "load_workbook_from_b64 L b64_string = Inl e \<Longrightarrow> fst (error_response e) = 500"
  by (auto simp: load_workbook_from_b64_def reraise_load_def error_response_def
      split: sum.splits if_splits)

lemma reference_tools_cases:
  "tool \<in> set reference_tools \<Longrightarrow>
   tool = ''sum_range'' \<or> tool = ''avg_range'' \<or> tool = ''get_cell'' \<or> tool = ''set_cell''"
  by (simp only: reference_tools_def list.set insert_iff empty_iff) blast

lemma file_tools_cases:
  "tool \<in> set file_tools \<Longrightarrow>
   tool = ''sum_range'' \<or> tool = ''avg_range'' \<or> tool = ''get_cell'' \<or> tool = ''set_cell''
   \<or> tool = ''to_csv''"
  by (simp only: file_tools_def reference_tools_def append.simps list.set insert_iff empty_iff)
    blast

lemma reference_param_simps [simp]:
  "reference_param ''sum_range'' = ''range''"
  "reference_param ''avg_range'' = ''range''"
  "reference_param ''get_cell'' = ''cell''"
  "reference_param ''set_cell'' = ''cell''"
  by (simp_all add: reference_param_def)

text \<open>A tool that takes a file reads the parameter \<^verbatim>\<open>file\<close> first and decodes it at once.\<close>

lemma file_tool_missing_file:
  assumes "tool \<in> set file_tools" and "calls data tool params"
    and "py_getitem L params ''file'' = Inl e"
  shows "dispatch L (Inr data) = ([], Inl e)"
proof -
  note miss = assms(3)
  from file_tools_cases [OF assms(1)] show ?thesis
  proof (elim disjE)
    assume "tool = ''sum_range''"
    with assms(2) have "dispatch L (Inr data) = sum_range L params"
      by (simp add: dispatch_sum_range)
    then show ?thesis by (simp add: sum_range_def miss)
  next
    assume "tool = ''avg_range''"
    with assms(2) have "dispatch L (Inr data) = avg_range L params"
      by (simp add: dispatch_avg_range)
    then show ?thesis by (simp add: avg_range_def miss)
  next
    assume "tool = ''get_cell''"
    with assms(2) have "dispatch L (Inr data) = get_cell L params"
      by (simp add: dispatch_get_cell)
    then show ?thesis by (simp add: get_cell_def miss)
  next
    assume "tool = ''set_cell''"
    with assms(2) have "dispatch L (Inr data) = set_cell L params"
      by (simp add: dispatch_set_cell)
    then show ?thesis by (simp add: set_cell_def miss)
  next
    assume "tool = ''to_csv''"
    with assms(2) have "dispatch L (Inr data) = to_csv L params"
      by (simp add: dispatch_to_csv)
    then show ?thesis by (simp add: to_csv_def miss)
  qed
qed

lemma file_tool_bad_file:
  assumes "tool \<in> set file_tools" and "calls data tool params"
    and "py_getitem L params ''file'' = Inr b64_string"
    and "load_workbook_from_b64 L b64_string = Inl e"
  shows "dispatch L (Inr data) = ([DecodeFile], Inl e)"
proof -
  note given = assms(3) bindR_decode_Inl [OF assms(4)]
  from file_tools_cases [OF assms(1)] show ?thesis
  proof (elim disjE)
    assume "tool = ''sum_range''"
    with assms(2) have "dispatch L (Inr data) = sum_range L params"
      by (simp add: dispatch_sum_range)
    then show ?thesis by (simp add: sum_range_def given)
  next
    assume "tool = ''avg_range''"
    with assms(2) have "dispatch L (Inr data) = avg_range L params"
      by (simp add: dispatch_avg_range)
    then show ?thesis by (simp add: avg_range_def given)
  next
    assume "tool = ''get_cell''"
    with assms(2) have "dispatch L (Inr data) = get_cell L params"
      by (simp add: dispatch_get_cell)
    then show ?thesis by (simp add: get_cell_def given)
  next
    assume "tool = ''set_cell''"
    with assms(2) have "dispatch L (Inr data) = set_cell L params"
      by (simp add: dispatch_set_cell)
    then show ?thesis by (simp add: set_cell_def given)
  next
    assume "tool = ''to_csv''"
    with assms(2) have "dispatch L (Inr data) = to_csv L params"
      by (simp add: dispatch_to_csv)
    then show ?thesis by (simp add: to_csv_def given)
  qed
qed

text \<open>
  After the file, a tool that takes a reference reads the parameter that holds it and
  parses it; nothing else happens before.
\<close>

lemma reference_tool_reads_reference:
  assumes "tool \<in> set reference_tools" and "calls data tool params"
    and "py_getitem L params ''file'' = Inr b64_string"
    and "load_workbook_from_b64 L b64_string = Inr wb"
    and "bindE (py_getitem L params (reference_param tool)) parse_range_string = Inl e"
  shows "dispatch L (Inr data) = ([DecodeFile], Inl e)"
proof -
  note given = assms(3) bindR_decode_Inr [OF assms(4)]
  from reference_tools_cases [OF assms(1)] show ?thesis
  proof (elim disjE)
    assume t: "tool = ''sum_range''"
    with assms(2) have "dispatch L (Inr data) = sum_range L params"
      by (simp add: dispatch_sum_range)
    moreover from assms(5) have "sum_range L params = ([DecodeFile], Inl e)"
      unfolding t reference_param_simps
      by (cases "py_getitem L params ''range''") (simp_all add: sum_range_def given)
    ultimately show ?thesis by simp
  next
    assume t: "tool = ''avg_range''"
    with assms(2) have "dispatch L (Inr data) = avg_range L params"
      by (simp add: dispatch_avg_range)
    moreover from assms(5) have "avg_range L params = ([DecodeFile], Inl e)"
      unfolding t reference_param_simps
      by (cases "py_getitem L params ''range''") (simp_all add: avg_range_def given)
    ultimately show ?thesis by simp
  next
    assume t: "tool = ''get_cell''"
    with assms(2) have "dispatch L (Inr data) = get_cell L params"
      by (simp add: dispatch_get_cell)
    moreover from assms(5) have "get_cell L params = ([DecodeFile], Inl e)"
      unfolding t reference_param_simps
      by (cases "py_getitem L params ''cell''") (simp_all add: get_cell_def given)
    ultimately show ?thesis by simp
  next
    assume t: "tool = ''set_cell''"
    with assms(2) have "dispatch L (Inr data) = set_cell L params"
      by (simp add: dispatch_set_cell)
    moreover from assms(5) have "set_cell L params = ([DecodeFile], Inl e)"
      unfolding t reference_param_simps
      by (cases "py_getitem L params ''cell''") (simp_all add: set_cell_def given)
    ultimately show ?thesis by simp
  qed
qed

text \<open>
  C5. A request for one of the four tools that take a reference, whose reference is a
  string without \<^verbatim>\<open>!\<close>, always fails with a structured error. The reference is parsed after
  the file is read and decoded: when the file decodes, the failure is the invalid-reference
  error (status 500 and the message of \<^verbatim>\<open>parse_range_string\<close>); when the file is missing or
  does not decode, it is that earlier failure. A reference that contains \<^verbatim>\<open>!\<close> is split
  into a sheet name without \<^verbatim>\<open>!\<close> and the whole rest after the first \<^verbatim>\<open>!\<close>.
\<close>

theorem reference_without_separator:
  assumes "tool \<in> set reference_tools"
    and "calls data tool params"
    and "py_getitem L params (reference_param tool) = Inr (JStr ref)"
    and "CHR ''!'' \<notin> set ref"
    and "CHR ''!'' \<in> set ref2"
  shows "run_tool L (Inr data) =
      (case py_getitem L params ''file'' of
         Inl e \<Rightarrow> ([], error_response e)
       | Inr b64_string \<Rightarrow>
           ([DecodeFile],
            case load_workbook_from_b64 L b64_string of
              Inl e \<Rightarrow> error_response e
            | Inr wb \<Rightarrow> invalid_reference))
    \<and> is_error (snd (run_tool L (Inr data)))
    \<and> (\<exists>sheet_name address.
          parse_range_string (JStr ref2) = Inr [sheet_name, address]
          \<and> ref2 = sheet_name @ CHR ''!'' # address
          \<and> CHR ''!'' \<notin> set sheet_name)"
proof -
  have tool: "tool \<in> set file_tools"
    using assms(1) by (simp add: file_tools_def)
  have parse: "bindE (py_getitem L params (reference_param tool)) parse_range_string =
      Inl invalid_range_format"
    using assms(3,4) by (simp add: parse_range_string_no_bang)
  have run: "run_tool L (Inr data) =
      (case py_getitem L params ''file'' of
         Inl e \<Rightarrow> ([], error_response e)
       | Inr b64_string \<Rightarrow>
           ([DecodeFile],
            case load_workbook_from_b64 L b64_string of
              Inl e \<Rightarrow> error_response e
            | Inr wb \<Rightarrow> invalid_reference))"
  proof (cases "py_getitem L params ''file''")
    case (Inl e)
    with file_tool_missing_file [OF tool assms(2) Inl] show ?thesis
      by (simp add: run_tool_def)
  next
    case got: (Inr b64)
    show ?thesis
    proof (cases "load_workbook_from_b64 L b64")
      case (Inl e)
      with got file_tool_bad_file [OF tool assms(2) got Inl] show ?thesis
        by (simp add: run_tool_def)
    next
      case (Inr wb)
      with got reference_tool_reads_reference [OF assms(1,2) got Inr parse] show ?thesis
        by (simp add: run_tool_def error_response_invalid_reference)
    qed
  qed
  have err: "is_error (snd (run_tool L (Inr data)))"
    unfolding run by (simp split: sum.splits)
  have split: "\<exists>sheet_name address.
      parse_range_string (JStr ref2) = Inr [sheet_name, address]
      \<and> ref2 = sheet_name @ CHR ''!'' # address \<and> CHR ''!'' \<notin> set sheet_name"
    using split_once_present [OF assms(5)] assms(5) by (simp add: parse_range_string_def)
  from run err split show ?thesis by blast
qed

theorem reference_without_separator_example:
  "run_tool demo
     (request ''get_cell'' [(''file'', JStr ''data:x;base64,book''), (''cell'', JStr ''A1'')])
   = ([DecodeFile], 500,
      JObj [(''error'', JStr (''Invalid range format. Expected '' @ [CHR 0x27]
        @ ''SheetName!A1:B10'' @ [CHR 0x27] @ ''.''))])
   \<and> (\<exists>sheet_name address.
        parse_range_string (JStr ''Sheet1!A1!B2'' :: rat json) = Inr [sheet_name, address]
        \<and> ''Sheet1!A1!B2'' = sheet_name @ CHR ''!'' # address
        \<and> CHR ''!'' \<notin> set sheet_name)"
proof -
  let ?params = "JObj [(''file'', JStr ''data:x;base64,book''), (''cell'', JStr ''A1'')]
    :: rat json"
  have 1: "''get_cell'' \<in> set reference_tools"
    by (simp add: reference_tools_def)
  have 2: "calls (JObj [(''tool_id'', JStr ''get_cell''), (''parameters'', ?params)])
      ''get_cell'' ?params"
    by (rule calls_request)
  have 3: "py_getitem demo ?params (reference_param ''get_cell'') = Inr (JStr ''A1'')"
    by simp
  have 4: "CHR ''!'' \<notin> set ''A1''"
    by simp
  have 5: "CHR ''!'' \<in> set ''Sheet1!A1!B2''"
    by simp
  have got: "py_getitem demo ?params ''file'' = Inr (JStr ''data:x;base64,book'')"
    by simp
  have load: "load_workbook_from_b64 demo (JStr ''data:x;base64,book'') = Inr demo_book"
    by (simp add: load_workbook_from_b64_def demo_def demo_load_def)
  note facts = reference_without_separator [OF 1 2 3 4 5]
  from facts [THEN conjunct1] have "run_tool demo
      (Inr (JObj [(''tool_id'', JStr ''get_cell''), (''parameters'', ?params)])) =
    ([DecodeFile], invalid_reference)"
    by (simp add: got load)
  moreover from facts have "\<exists>sheet_name address.
      parse_range_string (JStr ''Sheet1!A1!B2'' :: rat json) = Inr [sheet_name, address]
      \<and> ''Sheet1!A1!B2'' = sheet_name @ CHR ''!'' # address
      \<and> CHR ''!'' \<notin> set sheet_name"
    by blast
  ultimately show ?thesis
    by (simp add: request_def invalid_reference_def quoted_def)
qed


section \<open>The shape of every response\<close>

lemma yields_result_Inl [simp]: "yields_result (Inl e)"
  by (simp add: yields_result_def)

lemma yields_result_ok_value [simp]: "yields_result (Inr (ok_value v))"
  by (simp add: yields_result_def ok_value_def)

lemma yields_result_ok_file [simp]: "yields_result (Inr (ok_file url))"
  by (simp add: yields_result_def ok_file_def)

lemma yields_result_bindE: "(\<And>x. yields_result (f x)) \<Longrightarrow> yields_result (bindE m f)"
  by (cases m) simp_all

lemma yields_result_bindR:
  "yields_result (snd (bindR m f))" if "\<And>x. yields_result (snd (f x))"
proof (cases m)
  case (Pair t r)
  show ?thesis
  proof (cases r)
    case (Inl e)
    with Pair show ?thesis by (simp add: bindR_def)
  next
    case (Inr x)
    with Pair that [of x] show ?thesis by (auto simp: bindR_def split: prod.splits)
  qed
qed

lemma snd_quiet [simp]: "snd (quiet r) = r"
  by (simp add: quiet_def)

lemma yields_result_sum_range: "yields_result (snd (sum_range L params))"
  unfolding sum_range_def
  by (intro yields_result_bindR yields_result_bindE)
    (simp add: Let_def split_def yields_result_bindE)

lemma yields_result_avg_range: "yields_result (snd (avg_range L params))"
  unfolding avg_range_def
  by (intro yields_result_bindR yields_result_bindE)
    (simp add: Let_def split_def yields_result_bindE)

lemma yields_result_get_cell: "yields_result (snd (get_cell L params))"
  unfolding get_cell_def
  by (intro yields_result_bindR yields_result_bindE)
    (simp add: Let_def split_def yields_result_bindE)

lemma yields_result_set_cell: "yields_result (snd (set_cell L params))"
  unfolding set_cell_def
  by (intro yields_result_bindR yields_result_bindE)
    (simp add: Let_def split_def yields_result_bindE)

lemma yields_result_to_csv: "yields_result (snd (to_csv L params))"
  unfolding to_csv_def
  by (intro yields_result_bindR yields_result_bindE)
    (simp add: Let_def split: option.splits)

lemma is_error_not_found [simp]: "is_error (not_found L tool_id)"
  by (simp add: not_found_def)

lemma yields_result_shape:
  "yields_result r \<Longrightarrow> (case r of Inl e \<Rightarrow> True | Inr r \<Rightarrow> is_result r \<or> is_error r)"
  by (auto simp: yields_result_def split: sum.splits)

lemma dispatch_shape:
  "case snd (dispatch L rq) of Inl e \<Rightarrow> True | Inr r \<Rightarrow> is_result r \<or> is_error r"
proof (cases rq)
  case (Inl e)
  then show ?thesis by (simp add: dispatch_def)
next
  case (Inr data)
  show ?thesis
  proof (cases "dict_get data ''tool_id'' JNull")
    case (Inl e)
    with Inr show ?thesis by (simp add: dispatch_def)
  next
    case tid: (Inr tool_id)
    show ?thesis
    proof (cases "dict_get data ''parameters'' (JObj [])")
      case (Inl e)
      with Inr tid show ?thesis by (simp add: dispatch_def)
    next
      case (Inr params)
      with \<open>rq = Inr data\<close> tid show ?thesis
        using yields_result_shape [OF yields_result_sum_range, of L params]
          yields_result_shape [OF yields_result_avg_range, of L params]
          yields_result_shape [OF yields_result_get_cell, of L params]
          yields_result_shape [OF yields_result_set_cell, of L params]
          yields_result_shape [OF yields_result_to_csv, of L params]
        by (simp add: dispatch_def)
    qed
  qed
qed

lemma not_result_and_error: "\<not> (is_result r \<and> is_error r)"
proof
  assume both: "is_result r \<and> is_error r"
  then have "fst r = 200"
    by (auto elim!: is_result.elims)
  moreover from both have "fst r = 400 \<or> fst r = 404 \<or> fst r = 500"
    by (auto elim!: is_error.elims)
  ultimately show False by simp
qed

text \<open>
  C7. Whatever the request is (a body that is not JSON included), the handler returns one
  response, and it is either a success, \<^verbatim>\<open>{"result": ...}\<close> with status 200, or a failure,
  \<^verbatim>\<open>{"error": <string>}\<close> with status 400, 404 or 500: never both, never neither. Every
  exception raised in the body of the \<^verbatim>\<open>try\<close> ends in the second form.
\<close>

theorem response_is_result_or_error:
  "(is_result (snd (run_tool L rq)) \<or> is_error (snd (run_tool L rq)))
   \<and> \<not> (is_result (snd (run_tool L rq)) \<and> is_error (snd (run_tool L rq)))
   \<and> (\<forall>t e. dispatch L rq = (t, Inl e) \<longrightarrow>
         run_tool L rq = (t, error_response e) \<and> is_error (error_response e :: 'f response))"
proof -
  have "is_result (snd (run_tool L rq)) \<or> is_error (snd (run_tool L rq))"
    using dispatch_shape [of L rq]
    by (cases "dispatch L rq") (auto simp: run_tool_def split: sum.splits)
  moreover have "\<not> (is_result (snd (run_tool L rq)) \<and> is_error (snd (run_tool L rq)))"
    by (rule not_result_and_error)
  moreover have "\<forall>t e. dispatch L rq = (t, Inl e) \<longrightarrow>
      run_tool L rq = (t, error_response e) \<and> is_error (error_response e :: 'f response)"
    by (simp add: run_tool_def)
  ultimately show ?thesis by blast
qed

theorem response_is_result_or_error_example:
  "is_error (snd (run_tool demo (Inl (Exc LibraryError ''400 Bad Request''))))
   \<and> run_tool demo (Inl (Exc LibraryError ''400 Bad Request''))
       = ([], 500, JObj [(''error'', JStr ''400 Bad Request'')])"
proof -
  have d: "dispatch demo (Inl (Exc LibraryError ''400 Bad Request'')) =
      ([], Inl (Exc LibraryError ''400 Bad Request''))"
    by (simp add: dispatch_def)
  from response_is_result_or_error [of demo "Inl (Exc LibraryError ''400 Bad Request'')"] d
  have "run_tool demo (Inl (Exc LibraryError ''400 Bad Request'')) =
      ([], error_response (Exc LibraryError ''400 Bad Request''))"
    by blast
  then show ?thesis by (simp add: error_response_def)
qed


section \<open>The order in which parameters are read\<close>

lemma dispatch_unknown_tool:
  assumes "dict_get data ''tool_id'' JNull = Inr tool_id"
    and "dict_get data ''parameters'' (JObj []) = Inr params"
    and "tool_id \<notin> JStr ` set file_tools"
  shows "dispatch L (Inr data) = ([], Inr (not_found L tool_id))"
proof -
  have "tool_id \<noteq> JStr ''sum_range''" "tool_id \<noteq> JStr ''avg_range''"
    "tool_id \<noteq> JStr ''get_cell''" "tool_id \<noteq> JStr ''set_cell''" "tool_id \<noteq> JStr ''to_csv''"
    using assms(3)
    by (auto simp only: file_tools_def reference_tools_def append.simps list.set image_insert
        insert_iff)
  with assms(1,2) have "dispatch L (Inr data) = quiet (Inr (not_found L tool_id))"
    by (simp add: dispatch_def)
  then show ?thesis
    by (simp add: quiet_def)
qed

lemma set_cell_missing_value:
  assumes "py_getitem L params ''file'' = Inr b64_string"
    and "load_workbook_from_b64 L b64_string = Inr wb"
    and "py_getitem L params ''cell'' = Inr (JStr (sheet_name @ CHR ''!'' # address))"
    and "CHR ''!'' \<notin> set sheet_name"
    and "py_getitem L params ''value'' = Inl e"
  shows "set_cell L params = ([DecodeFile], Inl e)"
  using assms
  by (simp add: set_cell_def bindR_decode_Inr parse_range_string_ref)

text \<open>
  C6, as the code has it. The parameters are read one by one, in the order of the source
  lines, and the file is decoded as soon as it is read. So: a missing \<^verbatim>\<open>file\<close> (or parameters
  that are not a mapping) fails with status 400 and nothing is decoded; a missing reference
  is found only after the file was decoded, with status 400 when the file decoded and with
  the decoder's status 500 when it did not; a \<^verbatim>\<open>file\<close> that does not decode (one that is not
  a string included) fails with status 500; a missing \<^verbatim>\<open>value\<close> of \<^verbatim>\<open>set_cell\<close> is found
  after the file was decoded and the reference parsed, with status 400; and a tool
  identifier that is none of the five fails with status 404 whatever the parameters are,
  and nothing is decoded.
\<close>

theorem parameters_checked_in_reading_order:
  "(tool \<in> set file_tools \<and> calls data tool params
      \<and> py_getitem L params ''file'' = Inl e
    \<longrightarrow> run_tool L (Inr data) = ([], error_response e)
        \<and> fst (error_response e :: 'f response) = 400)
   \<and> (tool \<in> set file_tools \<and> calls data tool params
      \<and> py_getitem L params ''file'' = Inr b64_string
      \<and> load_workbook_from_b64 L b64_string = Inl e
    \<longrightarrow> run_tool L (Inr data) = ([DecodeFile], error_response e)
        \<and> fst (error_response e :: 'f response) = 500)
   \<and> (tool \<in> set reference_tools \<and> calls data tool params
      \<and> py_getitem L params ''file'' = Inr b64_string
      \<and> load_workbook_from_b64 L b64_string = Inr wb
      \<and> py_getitem L params (reference_param tool) = Inl e
    \<longrightarrow> run_tool L (Inr data) = ([DecodeFile], error_response e)
        \<and> fst (error_response e :: 'f response) = 400)
   \<and> (calls data ''set_cell'' params
      \<and> py_getitem L params ''file'' = Inr b64_string
      \<and> load_workbook_from_b64 L b64_string = Inr wb
      \<and> py_getitem L params ''cell'' = Inr (JStr (sheet_name @ CHR ''!'' # address))
      \<and> CHR ''!'' \<notin> set sheet_name
      \<and> py_getitem L params ''value'' = Inl e
    \<longrightarrow> run_tool L (Inr data) = ([DecodeFile], error_response e)
        \<and> fst (error_response e :: 'f response) = 400)
   \<and> (dict_get data ''tool_id'' JNull = Inr tool_id
      \<and> dict_get data ''parameters'' (JObj []) = Inr params
      \<and> tool_id \<notin> JStr ` set file_tools
    \<longrightarrow> run_tool L (Inr data) = ([], not_found L tool_id)
        \<and> fst (not_found L tool_id) = 404)"
proof (intro conjI impI)
  assume a: "tool \<in> set file_tools \<and> calls data tool params
    \<and> py_getitem L params ''file'' = Inl e"
  then have "dispatch L (Inr data) = ([], Inl e)"
    using file_tool_missing_file [of tool data params L e] by blast
  then show "run_tool L (Inr data) = ([], error_response e)"
    by (rule run_tool_Inl)
  from a show "fst (error_response e :: 'f response) = 400"
    using py_getitem_error_400 [of L params "''file''" e] by blast
next
  assume a: "tool \<in> set file_tools \<and> calls data tool params
    \<and> py_getitem L params ''file'' = Inr b64_string \<and> load_workbook_from_b64 L b64_string = Inl e"
  then have "dispatch L (Inr data) = ([DecodeFile], Inl e)"
    using file_tool_bad_file [of tool data params L b64_string e] by blast
  then show "run_tool L (Inr data) = ([DecodeFile], error_response e)"
    by (rule run_tool_Inl)
  from a show "fst (error_response e :: 'f response) = 500"
    using load_error_500 [of L b64_string e] by blast
next
  assume a: "tool \<in> set reference_tools \<and> calls data tool params
    \<and> py_getitem L params ''file'' = Inr b64_string \<and> load_workbook_from_b64 L b64_string = Inr wb
    \<and> py_getitem L params (reference_param tool) = Inl e"
  then have "bindE (py_getitem L params (reference_param tool)) parse_range_string = Inl e"
    by simp
  with a have "dispatch L (Inr data) = ([DecodeFile], Inl e)"
    using reference_tool_reads_reference [of tool data params L b64_string wb e] by blast
  then show "run_tool L (Inr data) = ([DecodeFile], error_response e)"
    by (rule run_tool_Inl)
  from a show "fst (error_response e :: 'f response) = 400"
    using py_getitem_error_400 [of L params "reference_param tool" e] by blast
next
  assume a: "calls data ''set_cell'' params
    \<and> py_getitem L params ''file'' = Inr b64_string
    \<and> load_workbook_from_b64 L b64_string = Inr wb
    \<and> py_getitem L params ''cell'' = Inr (JStr (sheet_name @ CHR ''!'' # address))
    \<and> CHR ''!'' \<notin> set sheet_name
    \<and> py_getitem L params ''value'' = Inl e"
  then have "set_cell L params = ([DecodeFile], Inl e)"
    using set_cell_missing_value [of L params b64_string wb sheet_name address e] by blast
  moreover from a have "calls data ''set_cell'' params"
    by blast
  ultimately have "dispatch L (Inr data) = ([DecodeFile], Inl e)"
    by (simp add: dispatch_set_cell [of data params L])
  then show "run_tool L (Inr data) = ([DecodeFile], error_response e)"
    by (rule run_tool_Inl)
  from a show "fst (error_response e :: 'f response) = 400"
    using py_getitem_error_400 [of L params "''value''" e] by blast
next
  assume a: "dict_get data ''tool_id'' JNull = Inr tool_id
    \<and> dict_get data ''parameters'' (JObj []) = Inr params
    \<and> tool_id \<notin> JStr ` set file_tools"
  then have "dispatch L (Inr data) = ([], Inr (not_found L tool_id))"
    using dispatch_unknown_tool [of data tool_id params L] by blast
  then show "run_tool L (Inr data) = ([], not_found L tool_id)"
    by (rule run_tool_Inr)
  show "fst (not_found L tool_id) = 404"
    by (simp add: not_found_def)
qed

theorem parameters_checked_in_reading_order_example:
  "run_tool demo (request ''sum_range'' [(''range'', JStr ''Sheet1!A1:A3'')])
     = ([], 400, JObj [(''error'', JStr (''Missing or invalid parameter: '' @ quoted ''file''))])
   \<and> run_tool demo (request ''to_csv'' [(''file'', JInt 5)])
     = ([DecodeFile], 500,
        JObj [(''error'', JStr (''Failed to parse Excel file: '' @ quoted ''int''
          @ '' object has no attribute '' @ quoted ''split''))])
   \<and> run_tool demo (request ''get_cell'' [(''file'', JStr ''data:x;base64,book'')])
     = ([DecodeFile], 400,
        JObj [(''error'', JStr (''Missing or invalid parameter: '' @ quoted ''cell''))])
   \<and> run_tool demo
       (request ''set_cell''
          [(''file'', JStr ''data:x;base64,book''), (''cell'', JStr ''Sheet1!B2'')])
     = ([DecodeFile], 400,
        JObj [(''error'', JStr (''Missing or invalid parameter: '' @ quoted ''value''))])
   \<and> run_tool demo (request ''does_not_exist'' [(''file'', JStr ''data:x;base64,book'')])
     = ([], 404,
        JObj [(''error'', JStr (''Tool with id '' @ quoted ''does_not_exist'' @ '' not found.''))])"
proof -
  note order = parameters_checked_in_reading_order
  let ?book = "JStr ''data:x;base64,book'' :: rat json"
  have load: "load_workbook_from_b64 demo ?book = Inr demo_book"
    by (simp add: load_workbook_from_b64_def demo_def demo_load_def)
  have repr: "py_repr demo = quoted"
    by (simp add: demo_def)
  let ?p1 = "JObj [(''range'', JStr ''Sheet1!A1:A3'')] :: rat json"
  let ?d1 = "JObj [(''tool_id'', JStr ''sum_range''), (''parameters'', ?p1)]"
  let ?e1 = "Exc KeyError (quoted ''file'')"
  have h1: "''sum_range'' \<in> set file_tools \<and> calls ?d1 ''sum_range'' ?p1
      \<and> py_getitem demo ?p1 ''file'' = Inl ?e1"
    by (simp add: file_tools_def reference_tools_def calls_request repr)
  have 1: "run_tool demo (Inr ?d1) = ([], error_response ?e1)"
    using order [where tool = "''sum_range''" and data = ?d1 and params = ?p1 and L = demo
        and e = ?e1, THEN conjunct1, THEN mp, OF h1]
    by (rule conjunct1)
  let ?p2 = "JObj [(''file'', JInt 5)] :: rat json"
  let ?d2 = "JObj [(''tool_id'', JStr ''to_csv''), (''parameters'', ?p2)]"
  let ?e2 = "Exc OSError (''Failed to parse Excel file: '' @ quoted ''int''
    @ '' object has no attribute '' @ quoted ''split'')"
  have h2: "''to_csv'' \<in> set file_tools \<and> calls ?d2 ''to_csv'' ?p2
      \<and> py_getitem demo ?p2 ''file'' = Inr (JInt 5)
      \<and> load_workbook_from_b64 demo (JInt 5) = Inl ?e2"
    by (simp add: file_tools_def reference_tools_def calls_request
        load_workbook_from_b64_def reraise_load_def no_attribute_def)
  have 2: "run_tool demo (Inr ?d2) = ([DecodeFile], error_response ?e2)"
    using order [where tool = "''to_csv''" and data = ?d2 and params = ?p2 and L = demo
        and b64_string = "JInt 5" and e = ?e2,
        THEN conjunct2, THEN conjunct1, THEN mp, OF h2]
    by (rule conjunct1)
  let ?p3 = "JObj [(''file'', ?book)] :: rat json"
  let ?d3 = "JObj [(''tool_id'', JStr ''get_cell''), (''parameters'', ?p3)]"
  let ?e3 = "Exc KeyError (quoted ''cell'')"
  have h3: "''get_cell'' \<in> set reference_tools \<and> calls ?d3 ''get_cell'' ?p3
      \<and> py_getitem demo ?p3 ''file'' = Inr ?book
      \<and> load_workbook_from_b64 demo ?book = Inr demo_book
      \<and> py_getitem demo ?p3 (reference_param ''get_cell'') = Inl ?e3"
    by (simp add: reference_tools_def calls_request load repr)
  have 3: "run_tool demo (Inr ?d3) = ([DecodeFile], error_response ?e3)"
    using order [where tool = "''get_cell''" and data = ?d3 and params = ?p3 and L = demo
        and b64_string = ?book and wb = demo_book and e = ?e3,
        THEN conjunct2, THEN conjunct2, THEN conjunct1, THEN mp, OF h3]
    by (rule conjunct1)
  let ?p4 = "JObj [(''file'', ?book), (''cell'', JStr ''Sheet1!B2'')] :: rat json"
  let ?d4 = "JObj [(''tool_id'', JStr ''set_cell''), (''parameters'', ?p4)]"
  let ?e4 = "Exc KeyError (quoted ''value'')"
  have h4: "calls ?d4 ''set_cell'' ?p4
      \<and> py_getitem demo ?p4 ''file'' = Inr ?book
      \<and> load_workbook_from_b64 demo ?book = Inr demo_book
      \<and> py_getitem demo ?p4 ''cell'' = Inr (JStr (''Sheet1'' @ CHR ''!'' # ''B2''))
      \<and> CHR ''!'' \<notin> set ''Sheet1''
      \<and> py_getitem demo ?p4 ''value'' = Inl ?e4"
    by (simp add: calls_request load repr)
  have 4: "run_tool demo (Inr ?d4) = ([DecodeFile], error_response ?e4)"
    using order [where data = ?d4 and params = ?p4 and L = demo
        and b64_string = ?book and wb = demo_book
        and sheet_name = "''Sheet1''" and address = "''B2''" and e = ?e4,
        THEN conjunct2, THEN conjunct2, THEN conjunct2, THEN conjunct1, THEN mp, OF h4]
    by (rule conjunct1)
  let ?d5 = "JObj [(''tool_id'', JStr ''does_not_exist''), (''parameters'', ?p3)]"
  have h5: "dict_get ?d5 ''tool_id'' JNull = Inr (JStr ''does_not_exist'')
      \<and> dict_get ?d5 ''parameters'' (JObj []) = Inr ?p3
      \<and> JStr ''does_not_exist'' \<notin> JStr ` set file_tools"
    by (simp add: file_tools_def reference_tools_def)
  have 5: "run_tool demo (Inr ?d5) = ([], not_found demo (JStr ''does_not_exist''))"
    using order [where data = ?d5 and params = ?p3 and L = demo
        and tool_id = "JStr ''does_not_exist''",
        THEN conjunct2, THEN conjunct2, THEN conjunct2, THEN conjunct2, THEN mp, OF h5]
    by (rule conjunct1)
  have "run_tool demo (request ''sum_range'' [(''range'', JStr ''Sheet1!A1:A3'')])
      = ([], 400, JObj [(''error'', JStr (''Missing or invalid parameter: '' @ quoted ''file''))])"
    using 1 by (simp add: request_def error_response_def)
  moreover have "run_tool demo (request ''to_csv'' [(''file'', JInt 5)])
      = ([DecodeFile], 500,
         JObj [(''error'', JStr (''Failed to parse Excel file: '' @ quoted ''int''
           @ '' object has no attribute '' @ quoted ''split''))])"
    using 2 by (simp add: request_def error_response_def)
  moreover have "run_tool demo (request ''get_cell'' [(''file'', JStr ''data:x;base64,book'')])
      = ([DecodeFile], 400,
         JObj [(''error'', JStr (''Missing or invalid parameter: '' @ quoted ''cell''))])"
    using 3 by (simp add: request_def error_response_def)
  moreover have "run_tool demo
        (request ''set_cell''
           [(''file'', JStr ''data:x;base64,book''), (''cell'', JStr ''Sheet1!B2'')])
      = ([DecodeFile], 400,
         JObj [(''error'', JStr (''Missing or invalid parameter: '' @ quoted ''value''))])"
    using 4 by (simp add: request_def error_response_def)
  moreover have "run_tool demo
        (request ''does_not_exist'' [(''file'', JStr ''data:x;base64,book'')])
      = ([], 404,
         JObj [(''error'',
           JStr (''Tool with id '' @ quoted ''does_not_exist'' @ '' not found.''))])"
    using 5 by (simp add: request_def not_found_def)
  ultimately show ?thesis
    by (intro conjI)
qed

text \<open>
  C6, as the claim has it, fails twice on \<^verbatim>\<open>sum_range\<close> without its \<^verbatim>\<open>range\<close>: the file is
  decoded before the missing parameter is noticed, and when the file does not decode the
  response is the decoder's 500, not 400.
\<close>

theorem missing_range_found_after_decoding:
  "run_tool demo (request ''sum_range'' [(''file'', JStr ''data:x;base64,book'')])
     = ([DecodeFile], 400,
        JObj [(''error'', JStr (''Missing or invalid parameter: '' @ quoted ''range''))])
   \<and> run_tool demo (request ''sum_range'' [(''file'', JStr ''no data url'')])
     = ([DecodeFile], 500,
        JObj [(''error'', JStr (''Invalid base64 file format: ''
          @ ''not enough values to unpack (expected 2, got 1)''))])"
  by (simp add: request_def run_tool_def dispatch_def sum_range_def bindR_def quiet_def
      decode_file_def load_workbook_from_b64_def reraise_load_def error_response_def
      demo_def demo_load_def)


section \<open>Booleans in a range\<close>






section \<open>The CSV export\<close>

lemma write_rows_concat: "write_rows L stream rows = stream @ concat (map (writerow L) rows)"
  by (induction rows arbitrary: stream) simp_all

lemma run_to_csv:
  assumes "calls data ''to_csv'' params"
    and "py_getitem L params ''file'' = Inr b64_string"
    and "load_workbook_from_b64 L b64_string = Inr wb"
    and "wb_active wb = Some sheet"
  shows "run_tool L (Inr data) =
    ([DecodeFile],
     ok_file (''data:text/csv;base64,''
       @ b64encode L (utf8_encode L (concat (map (writerow L) (iter_rows L sheet))))))"
proof -
  have "to_csv L params =
    ([DecodeFile],
     Inr (ok_file (''data:text/csv;base64,''
       @ b64encode L (utf8_encode L (concat (map (writerow L) (iter_rows L sheet)))))))"
    using assms(2-4) by (simp add: to_csv_def bindR_decode_Inr write_rows_concat)
  with dispatch_to_csv [OF assms(1), of L] show ?thesis
    by (simp add: run_tool_def)
qed

text \<open>
  C4. When the active sheet of the decoded file has \<open>n\<close> rows of \<open>m\<close> values each,
  \<^verbatim>\<open>to_csv\<close> answers with the CSV text that is the writer's \<open>n\<close> records one after the other,
  in the order of the rows; record \<open>k\<close> is written from the whole row \<open>k\<close>, all its \<open>m\<close>
  values in column order, empty ones at the end included.
\<close>

theorem to_csv_writes_every_row:
  assumes "calls data ''to_csv'' params"
    and "py_getitem L params ''file'' = Inr b64_string"
    and "load_workbook_from_b64 L b64_string = Inr wb"
    and "wb_active wb = Some sheet"
    and "iter_rows L sheet = rows"
    and "length rows = n"
    and "\<forall>row \<in> set rows. length row = m"
  shows "\<exists>records.
      run_tool L (Inr data) =
        ([DecodeFile],
         ok_file (''data:text/csv;base64,'' @ b64encode L (utf8_encode L (concat records))))
      \<and> length records = n
      \<and> (\<forall>k < n. records ! k = writerow L (rows ! k) \<and> length (rows ! k) = m)"
proof -
  have "run_tool L (Inr data) =
      ([DecodeFile],
       ok_file (''data:text/csv;base64,''
         @ b64encode L (utf8_encode L (concat (map (writerow L) rows)))))"
    using run_to_csv [OF assms(1-4)] assms(5) by simp
  moreover have "length (map (writerow L) rows) = n"
    using assms(6) by simp
  moreover have "\<forall>k < n. map (writerow L) rows ! k = writerow L (rows ! k)
      \<and> length (rows ! k) = m"
    using assms(6,7) by simp
  ultimately show ?thesis by blast
qed

theorem to_csv_example:
  "run_tool demo (request ''to_csv'' [(''file'', JStr ''data:x;base64,book'')])
   = ([DecodeFile], 200,
      JObj [(''result'', JObj [(''file'',
        JStr (''data:text/csv;base64,''
          @ ''2'' @ [CHR 0x0D, CHR 0x0A]
          @ ''4'' @ [CHR 0x0D, CHR 0x0A]
          @ ''x'' @ [CHR 0x0D, CHR 0x0A]))])])"
proof -
  let ?params = "JObj [(''file'', JStr ''data:x;base64,book'')] :: rat json"
  let ?rows = "[[VInt 2], [VInt 4], [VStr ''x'']] :: rat cell_value list list"
  have 1: "calls (JObj [(''tool_id'', JStr ''to_csv''), (''parameters'', ?params)])
      ''to_csv'' ?params"
    by (rule calls_request)
  have 2: "py_getitem demo ?params ''file'' = Inr (JStr ''data:x;base64,book'')"
    by simp
  have 3: "load_workbook_from_b64 demo (JStr ''data:x;base64,book'') = Inr demo_book"
    by (simp add: load_workbook_from_b64_def demo_def demo_load_def)
  have 4: "wb_active demo_book = Some demo_sheet"
    by (simp add: wb_active_def demo_book_def)
  have 5: "iter_rows demo demo_sheet = ?rows"
    by (simp add: demo_def demo_sheet_def)
  have 6: "length ?rows = 3"
    by simp
  have 7: "\<forall>row \<in> set ?rows. length row = 1"
    by simp
  from to_csv_writes_every_row [OF 1 2 3 4 5 6 7]
  obtain records where r: "run_tool demo
        (Inr (JObj [(''tool_id'', JStr ''to_csv''), (''parameters'', ?params)])) =
      ([DecodeFile],
       ok_file (''data:text/csv;base64,''
         @ b64encode demo (utf8_encode demo (concat records))))"
    and len: "length records = 3"
    and each: "\<forall>k < 3. records ! k = writerow demo (?rows ! k)"
    by blast
  from each have "records ! 0 = writerow demo [VInt 2]" "records ! 1 = writerow demo [VInt 4]"
    "records ! 2 = writerow demo [VStr ''x'']"
    by simp_all
  with len have "records =
      [writerow demo [VInt 2], writerow demo [VInt 4], writerow demo [VStr ''x'']]"
    by (cases records; cases "tl records"; cases "tl (tl records)") auto
  with r show ?thesis
    by (simp add: request_def ok_file_def demo_def demo_writerow_def)
qed


section \<open>Writing a cell and reading it back\<close>



















section \<open>A sheet the workbook does not have\<close>

text \<open>
  \<^verbatim>\<open>workbook[sheet_name]\<close> raises \<^verbatim>\<open>KeyError\<close> for a name that is not a sheet of the workbook,
  and the request ends in the first \<^verbatim>\<open>except\<close> clause.
\<close>

lemma get_cell_on_unknown_sheet:
  assumes "calls data ''get_cell'' params"
    and "py_getitem L params ''file'' = Inr b64_string"
    and "load_workbook_from_b64 L b64_string = Inr wb"
    and "py_getitem L params ''cell'' = Inr (JStr (sheet_name @ CHR ''!'' # address))"
    and "CHR ''!'' \<notin> set sheet_name"
    and "sheet_index sheet_name (worksheets wb) = None"
  shows "run_tool L (Inr data) =
    ([DecodeFile], 400,
     JObj [(''error'', JStr (''Missing or invalid parameter: ''
       @ py_repr L (''Worksheet '' @ sheet_name @ '' does not exist.'')))])"
proof -
  have "get_cell L params =
      ([DecodeFile],
       Inl (Exc KeyError (py_repr L (''Worksheet '' @ sheet_name @ '' does not exist.''))))"
    using assms(2-6)
    by (simp add: get_cell_def bindR_decode_Inr parse_range_string_ref wb_getitem_def)
  with dispatch_get_cell [OF assms(1), of L] show ?thesis
    by (simp add: run_tool_def error_response_def)
qed


end
